theory Spec2Isabelle
  imports Main "HOL-Library.Sublist"
begin

section \<open>Strings\<close>

text \<open>
  A JavaScript string is modelled as a \<^typ>\<open>string\<close>: each \<^typ>\<open>char\<close> stands for one
  code unit in the range U+0000..U+00FF. Numbers are modelled as unbounded \<^typ>\<open>int\<close> and
  \<^typ>\<open>nat\<close>, which agrees with the source's doubles on all integers below \<open>2^53\<close>.
\<close>

definition startsWith :: "string \<Rightarrow> string \<Rightarrow> bool" where
  "startsWith s p = (take (length p) s = p)"

definition endsWith :: "string \<Rightarrow> string \<Rightarrow> bool" where
  "endsWith s p = (length p \<le> length s \<and> drop (length s - length p) s = p)"

text \<open>\<open>s.includes(p)\<close>.\<close>

fun includesStr :: "string \<Rightarrow> string \<Rightarrow> bool" where
  "includesStr [] p = (p = [])"
| "includesStr (c # cs) p = (startsWith (c # cs) p \<or> includesStr cs p)"

text \<open>\<open>toLowerCase\<close> on the code units up to U+00FF: the letters A to Z and the
  accented capitals U+00C0 to U+00DE, the multiplication sign U+00D7 apart.\<close>

definition toLowerChar :: "char \<Rightarrow> char" where
  "toLowerChar c =
     (let n = (of_char c :: nat)
      in if (65 \<le> n \<and> n \<le> 90) \<or> (192 \<le> n \<and> n \<le> 222 \<and> n \<noteq> 215)
         then char_of (n + 32) else c)"

definition toLowerCase :: "string \<Rightarrow> string" where
  "toLowerCase s = map toLowerChar s"

text \<open>The white space removed by \<open>trim\<close> and matched by \<open>\s\<close>: tab, line feed, vertical
  tab, form feed, carriage return, space and no-break space.\<close>

definition isWhiteSpace :: "char \<Rightarrow> bool" where
  "isWhiteSpace c = (c = CHR 0x09 \<or> c = CHR 0x0A \<or> c = CHR 0x0B \<or> c = CHR 0x0C
     \<or> c = CHR 0x0D \<or> c = CHR 0x20 \<or> c = CHR 0xA0)"

definition trim :: "string \<Rightarrow> string" where
  "trim s = rev (dropWhile isWhiteSpace (rev (dropWhile isWhiteSpace s)))"

text \<open>The line terminators: \<open>.\<close> does not match them and a multi-line \<open>^\<close> matches after
  them.\<close>

definition isLineTerminator :: "char \<Rightarrow> bool" where
  "isLineTerminator c = (c = CHR 0x0A \<or> c = CHR 0x0D)"

definition isDigit :: "char \<Rightarrow> bool" where
  "isDigit c = (48 \<le> (of_char c :: nat) \<and> (of_char c :: nat) \<le> 57)"

text \<open>\<open>parseInt\<close> on a non-empty string of decimal digits.\<close>

definition parseInt :: "string \<Rightarrow> int" where
  "parseInt ds = foldl (\<lambda>a c. 10 * a + (int (of_char c) - 48)) 0 ds"

text \<open>\<open>s.split(c)\<close> for a separator of one character: the pieces between its
  occurrences; never empty. The accumulator holds the current piece, reversed.\<close>

fun splitAcc :: "char \<Rightarrow> string \<Rightarrow> string \<Rightarrow> string list" where
  "splitAcc sep acc [] = [rev acc]"
| "splitAcc sep acc (c # cs) =
     (if c = sep then rev acc # splitAcc sep [] cs else splitAcc sep (c # acc) cs)"

definition splitChar :: "char \<Rightarrow> string \<Rightarrow> string list" where
  "splitChar sep s = splitAcc sep [] s"

definition splitNewline :: "string \<Rightarrow> string list" where
  "splitNewline s = splitChar (CHR 0x0A) s"

text \<open>\<open>xs.join(sep)\<close>.\<close>

definition joinWith :: "string \<Rightarrow> string list \<Rightarrow> string" where
  "joinWith sep xs = (case xs of [] \<Rightarrow> [] | y # ys \<Rightarrow> foldl (\<lambda>a x. a @ sep @ x) y ys)"

section \<open>Data model (code-reviewer.ts)\<close>

datatype ChangeType = addition | deletion | "context"

record LineChange =
  type :: ChangeType
  lineNumber :: int
  content :: string

record FileChange =
  fileName :: string
  oldFileName :: string
  isDeleted :: bool
  isNewFile :: bool
  additions :: nat
  deletions :: nat
  changes :: "LineChange list"
  rawDiff :: string

section \<open>CodeReviewer.parseDiff\<close>

text \<open>\<open>diff.split(/^diff --git/m)\<close>: the text is cut at every occurrence of \<open>diff --git\<close>
  that stands at the start of the text or right after a line terminator. The flag tells whether
  the current position is such a start; the accumulator holds the current piece, reversed.\<close>

function splitDiffAcc :: "bool \<Rightarrow> string \<Rightarrow> string \<Rightarrow> string list" where
  "splitDiffAcc atStart acc [] = [rev acc]"
| "splitDiffAcc atStart acc (c # cs) =
     (if atStart \<and> startsWith (c # cs) ''diff --git''
      then rev acc # splitDiffAcc False [] (drop 10 (c # cs))
      else splitDiffAcc (isLineTerminator c) (c # acc) cs)"
  by pat_completeness auto
termination
  by (relation "measure (\<lambda>(b, acc, s). length s)") auto

definition splitDiff :: "string \<Rightarrow> string list" where
  "splitDiff diff = splitDiffAcc True [] diff"

text \<open>The first occurrence of a pattern: the text before it and the text after it.\<close>

fun findSubAcc :: "string \<Rightarrow> string \<Rightarrow> string \<Rightarrow> (string \<times> string) option" where
  "findSubAcc pat acc [] = (if pat = [] then Some (rev acc, []) else None)"
| "findSubAcc pat acc (c # cs) =
     (if startsWith (c # cs) pat then Some (rev acc, drop (length pat) (c # cs))
      else findSubAcc pat (c # acc) cs)"

text \<open>\<open>header.match(/^diff --git a\/(.*?) b\/(.*?)$/)\<close>: both groups are lazy and \<open>.\<close>
  matches no line terminator, and \<open>$\<close> is the end of the header. So the header has no line
  terminator after \<open>a/\<close>, the first group ends at the first \<open> b/\<close> and the second one runs to
  the end. The result is the pair of groups 1 and 2.\<close>

definition matchFileHeader :: "string \<Rightarrow> (string \<times> string) option" where
  "matchFileHeader header =
     (if startsWith header ''diff --git a/'' then
        (let rest = drop 13 header in
         if list_ex isLineTerminator rest then None else findSubAcc '' b/'' [] rest)
      else None)"

text \<open>\<open>/@@ -(\d+),?\d* \+(\d+),?\d* @@/\<close> tried at the start of a text. Every repetition is
  followed by a character outside its class, so the greedy choice is the only one that can
  succeed and the groups are the full runs of digits.\<close>

definition matchHunkAt :: "string \<Rightarrow> (int \<times> int) option" where
  "matchHunkAt s =
     (if startsWith s ''@@ -'' then
        (let s1 = drop 4 s; d1 = takeWhile isDigit s1; s2 = dropWhile isDigit s1;
             s3 = (if startsWith s2 '','' then drop 1 s2 else s2);
             s4 = dropWhile isDigit s3
         in if d1 \<noteq> [] \<and> startsWith s4 '' +'' then
              (let s5 = drop 2 s4; d2 = takeWhile isDigit s5; s6 = dropWhile isDigit s5;
                   s7 = (if startsWith s6 '','' then drop 1 s6 else s6);
                   s8 = dropWhile isDigit s7
               in if d2 \<noteq> [] \<and> startsWith s8 '' @@'' then Some (parseInt d1, parseInt d2)
                  else None)
            else None)
      else None)"

text \<open>\<open>line.match(...)\<close> searches the line: the leftmost position where the pattern
  matches.\<close>

fun matchHunkHeader :: "string \<Rightarrow> (int \<times> int) option" where
  "matchHunkHeader [] = None"
| "matchHunkHeader (c # cs) =
     (case matchHunkAt (c # cs) of Some r \<Rightarrow> Some r | None \<Rightarrow> matchHunkHeader cs)"

text \<open>The local variables of the loop over the lines of one file block.\<close>

record ParseState =
  st_additions :: nat
  st_deletions :: nat
  st_changes :: "LineChange list"
  currentLineOld :: int
  currentLineNew :: int

definition initState :: ParseState where
  "initState = \<lparr>st_additions = 0, st_deletions = 0, st_changes = [],
                 currentLineOld = 0, currentLineNew = 0\<rparr>"

text \<open>The last branch of the loop body: a line that is recorded as context.\<close>

definition isContextLine :: "string \<Rightarrow> bool" where
  "isContextLine l =
     (\<not> startsWith l [CHR 0x5C] \<and> \<not> startsWith l ''diff'' \<and> \<not> startsWith l ''index''
      \<and> \<not> startsWith l ''+++'' \<and> \<not> startsWith l ''---'' \<and> \<not> startsWith l ''@@''
      \<and> trim l \<noteq> [])"

text \<open>The body of \<open>lines.forEach\<close>.\<close>

definition parseLine :: "ParseState \<Rightarrow> string \<Rightarrow> ParseState" where
  "parseLine st l =
     (if startsWith l ''@@'' then
        (case matchHunkHeader l of
           Some (oldStart, newStart) \<Rightarrow>
             st\<lparr>currentLineOld := oldStart, currentLineNew := newStart\<rparr>
         | None \<Rightarrow> st)
      else if startsWith l ''+'' \<and> \<not> startsWith l ''+++'' then
        st\<lparr>st_additions := st_additions st + 1,
           st_changes := st_changes st @
             [\<lparr>type = addition, lineNumber = currentLineNew st, content = drop 1 l\<rparr>],
           currentLineNew := currentLineNew st + 1\<rparr>
      else if startsWith l ''-'' \<and> \<not> startsWith l ''---'' then
        st\<lparr>st_deletions := st_deletions st + 1,
           st_changes := st_changes st @
             [\<lparr>type = deletion, lineNumber = currentLineOld st, content = drop 1 l\<rparr>],
           currentLineOld := currentLineOld st + 1\<rparr>
      else if isContextLine l then
        st\<lparr>st_changes := st_changes st @
             [\<lparr>type = context, lineNumber = currentLineOld st,
               content = (if startsWith l '' '' then drop 1 l else l)\<rparr>],
           currentLineOld := currentLineOld st + 1,
           currentLineNew := currentLineNew st + 1\<rparr>
      else st)"

definition parseLines :: "ParseState \<Rightarrow> string list \<Rightarrow> ParseState" where
  "parseLines st ls = foldl parseLine st ls"

text \<open>The body of \<open>hunks.forEach\<close>: one file block, the text after \<open>diff --git\<close>. The loop
  runs over every line of the block, the rest of the header line included. \<open>None\<close> is the
  early return that pushes nothing.\<close>

definition blockHeader :: "string \<Rightarrow> string" where
  "blockHeader hunk = ''diff --git'' @ (case splitNewline hunk of [] \<Rightarrow> [] | l0 # _ \<Rightarrow> l0)"

definition parseFileBlock :: "string \<Rightarrow> FileChange option" where
  "parseFileBlock hunk =
     (let ls = splitNewline hunk in
      case matchFileHeader (blockHeader hunk) of
        None \<Rightarrow> None
      | Some (oldName, newName) \<Rightarrow>
          (let st = parseLines initState ls in
           Some \<lparr>fileName = newName, oldFileName = oldName,
                 isDeleted = list_ex (\<lambda>l. startsWith l ''deleted file mode'') ls,
                 isNewFile = list_ex (\<lambda>l. startsWith l ''new file mode'') ls,
                 additions = st_additions st, deletions = st_deletions st,
                 changes = st_changes st,
                 rawDiff = ''diff --git'' @ hunk\<rparr>))"

text \<open>\<open>slice(1)\<close> drops the text before the first file header.\<close>

definition parseDiff :: "string \<Rightarrow> FileChange list" where
  "parseDiff diff = List.map_filter parseFileBlock (tl (splitDiff diff))"

section \<open>CodeReviewer.filterFiles\<close>

text \<open>An optional parameter is \<open>None\<close> when it is absent. The callback returns false at
  the first test that fails.\<close>

definition filterFiles ::
  "FileChange list \<Rightarrow> string list option \<Rightarrow> string list option \<Rightarrow> FileChange list" where
  "filterFiles files extensions excludePatterns =
     filter (\<lambda>file.
       if (case extensions of
             Some exts \<Rightarrow> 0 < length exts \<and>
               \<not> list_ex (\<lambda>ext. endsWith (toLowerCase (fileName file)) (toLowerCase ext)) exts
           | None \<Rightarrow> False)
       then False
       else if (case excludePatterns of
             Some pats \<Rightarrow> 0 < length pats \<and>
               list_ex (\<lambda>pattern. includesStr (toLowerCase (fileName file))
                                      (toLowerCase pattern)) pats
           | None \<Rightarrow> False)
       then False
       else True) files"

section \<open>Regular expressions\<close>

text \<open>
  The patterns of the analyzer are written in a small language of regular expressions and run
  by a backtracking matcher that tries the alternatives in the order of the source's engine:
  the left branch of an alternative first, one more iteration of a repetition before leaving
  it. An iteration that consumes nothing is refused. A group records the text it matched.
\<close>

datatype rx =
    Atom "char \<Rightarrow> bool"
  | Eps
  | Seq rx rx
  | Alt rx rx
  | Star rx
  | Grp nat rx
  | Bol
  | Eol
  | WordBoundary

type_synonym caps = "(nat \<times> string) list"

definition isWordChar :: "char \<Rightarrow> bool" where
  "isWordChar c =
     (let n = (of_char c :: nat)
      in (48 \<le> n \<and> n \<le> 57) \<or> (65 \<le> n \<and> n \<le> 90) \<or> (97 \<le> n \<and> n \<le> 122) \<or> n = 95)"

text \<open>\<open>\b\<close>: exactly one of the characters before and after the position is a word
  character.\<close>

definition atWordBoundary :: "string \<Rightarrow> nat \<Rightarrow> bool" where
  "atWordBoundary s i =
     ((0 < i \<and> i \<le> length s \<and> isWordChar (s ! (i - 1)))
        \<noteq> (i < length s \<and> isWordChar (s ! i)))"

text \<open>\<open>ms r s i c\<close>: the ways in which \<open>r\<close> matches \<open>s\<close> from position \<open>i\<close> with the groups
  \<open>c\<close> recorded so far, as the end position and the groups of each way, the preferred way
  first.\<close>

function ms :: "rx \<Rightarrow> string \<Rightarrow> nat \<Rightarrow> caps \<Rightarrow> (nat \<times> caps) list" where
  "ms (Atom p) s i c = (if i < length s \<and> p (s ! i) then [(Suc i, c)] else [])"
| "ms Eps s i c = [(i, c)]"
| "ms (Seq a b) s i c = concat (map (\<lambda>m. ms b s (fst m) (snd m)) (ms a s i c))"
| "ms (Alt a b) s i c = ms a s i c @ ms b s i c"
| "ms (Star a) s i c =
     concat (map (\<lambda>m. if i < fst m \<and> fst m \<le> length s then ms (Star a) s (fst m) (snd m) else [])
                 (ms a s i c))
     @ [(i, c)]"
| "ms (Grp n a) s i c =
     map (\<lambda>m. (fst m, (n, take (fst m - i) (drop i s)) # snd m)) (ms a s i c)"
| "ms Bol s i c = (if i = 0 then [(i, c)] else [])"
| "ms Eol s i c = (if i = length s then [(i, c)] else [])"
| "ms WordBoundary s i c = (if atWordBoundary s i then [(i, c)] else [])"
  by pat_completeness auto
termination
  by (relation "measures [\<lambda>(r, s, i, c). size r, \<lambda>(r, s, i, c). length s - i]") auto

text \<open>\<open>s.match(r)\<close> without the global flag: the match at the leftmost position that has
  one, as its start, its end and its groups.\<close>

fun matchFrom :: "rx \<Rightarrow> string \<Rightarrow> nat \<Rightarrow> nat \<Rightarrow> (nat \<times> nat \<times> caps) option" where
  "matchFrom r s i 0 = (case ms r s i [] of [] \<Rightarrow> None | m # _ \<Rightarrow> Some (i, m))"
| "matchFrom r s i (Suc k) =
     (case ms r s i [] of [] \<Rightarrow> matchFrom r s (Suc i) k | m # _ \<Rightarrow> Some (i, m))"

definition matchRe :: "rx \<Rightarrow> string \<Rightarrow> (nat \<times> nat \<times> caps) option" where
  "matchRe r s = matchFrom r s 0 (length s)"

text \<open>A match used as a condition.\<close>

definition matches :: "string \<Rightarrow> rx \<Rightarrow> bool" where
  "matches s r = (matchRe r s \<noteq> None)"

text \<open>A group of a match; \<open>None\<close> is \<open>undefined\<close>.\<close>

definition group :: "nat \<Rightarrow> (nat \<times> nat \<times> caps) \<Rightarrow> string option" where
  "group n m = map_of (snd (snd m)) n"

subsection \<open>Building blocks\<close>

definition lit :: "string \<Rightarrow> rx" where
  "lit s = foldr (\<lambda>c r. Seq (Atom (\<lambda>x. x = c)) r) s Eps"

text \<open>A literal under the flag \<open>i\<close>; the literal is given in lower case.\<close>

definition liti :: "string \<Rightarrow> rx" where
  "liti s = foldr (\<lambda>c r. Seq (Atom (\<lambda>x. toLowerChar x = c)) r) s Eps"

definition Plus :: "rx \<Rightarrow> rx" where
  "Plus r = Seq r (Star r)"

definition Opt :: "rx \<Rightarrow> rx" where
  "Opt r = Alt r Eps"

definition oneOf :: "string \<Rightarrow> rx" where
  "oneOf cs = Atom (\<lambda>x. x \<in> set cs)"

definition noneOf :: "string \<Rightarrow> rx" where
  "noneOf cs = Atom (\<lambda>x. x \<notin> set cs)"

text \<open>\<open>.\<close>, \<open>\s\<close>, \<open>\w\<close> and \<open>\d\<close>.\<close>

definition anyChar :: rx where
  "anyChar = Atom (\<lambda>x. \<not> isLineTerminator x)"

definition space :: rx where
  "space = Atom isWhiteSpace"

definition wordChar :: rx where
  "wordChar = Atom isWordChar"

definition digit :: rx where
  "digit = Atom isDigit"

text \<open>A sequence of several parts.\<close>

definition seqs :: "rx list \<Rightarrow> rx" where
  "seqs rs = foldr Seq rs Eps"

definition alts :: "rx \<Rightarrow> rx list \<Rightarrow> rx" where
  "alts r rs = foldl Alt r rs"

text \<open>The two quote characters of the class \<open>['""]\<close>.\<close>

definition quotes :: string where
  "quotes = [CHR 0x27, CHR 0x22]"

section \<open>Findings (code-reviewer.ts)\<close>

datatype Severity = critical | major | minor | info

text \<open>An optional field is \<open>None\<close> when the object has no such property.\<close>

record ReviewIssue =
  severity :: Severity
  title :: string
  description :: string
  "file" :: string
  line :: "int option"
  suggestion :: "string option"
  codeSnippet :: "string option"
  language :: "string option"

record ReviewResult =
  filesChanged :: nat
  linesAdded :: nat
  linesRemoved :: nat
  issues :: "ReviewIssue list"
  summary :: "string option"

record ReviewOptions =
  fromCommit :: "string option"
  toCommit :: "string option"
  sourceBranch :: "string option"
  targetBranch :: "string option"
  repositoryPath :: "string option"
  reviewPrompt :: "string option"
  fileExtensions :: "string list option"
  excludePatterns :: "string list option"

section \<open>CodeAnalyzer: helpers (code-analyzer.ts)\<close>

definition newline :: string where
  "newline = [CHR 0x0A]"

definition apostrophe :: string where
  "apostrophe = [CHR 0x27]"

text \<open>\<open>String(n)\<close> for an integer.\<close>

fun natToString :: "nat \<Rightarrow> string" where
  "natToString n =
     (if n < 10 then [char_of (48 + n)]
      else natToString (n div 10) @ [char_of (48 + n mod 10)])"

definition numberToString :: "int \<Rightarrow> string" where
  "numberToString n = (if n < 0 then ''-'' @ natToString (nat (- n)) else natToString (nat n))"

text \<open>\<open>s.padStart(3, ' ')\<close>.\<close>

definition padStart3 :: "string \<Rightarrow> string" where
  "padStart3 s = replicate (3 - length s) (CHR '' '') @ s"

text \<open>The text of a match.\<close>

definition matchedText :: "string \<Rightarrow> (nat \<times> nat \<times> caps) \<Rightarrow> string" where
  "matchedText s m = take (fst (snd m) - fst m) (drop (fst m) s)"

text \<open>\<open>fileName.toLowerCase().match(/\.[^.]*$/)\<close>.\<close>

definition getFileExtension :: "string \<Rightarrow> string" where
  "getFileExtension name =
     (case matchRe (seqs [lit ''.'', Star (noneOf ''.''), Eol]) (toLowerCase name) of
        Some ext \<Rightarrow> matchedText (toLowerCase name) ext
      | None \<Rightarrow> [])"

definition languageMap :: "(string \<times> string) list" where
  "languageMap =
     [(''.js'', ''javascript''), (''.ts'', ''typescript''), (''.py'', ''python''),
      (''.java'', ''java''), (''.c'', ''c''), (''.cpp'', ''cpp''), (''.cs'', ''csharp''),
      (''.php'', ''php''), (''.rb'', ''ruby''), (''.go'', ''go''), (''.rs'', ''rust''),
      (''.swift'', ''swift''), (''.kt'', ''kotlin''), (''.scala'', ''scala''),
      (''.html'', ''html''), (''.css'', ''css''), (''.scss'', ''scss''), (''.less'', ''less''),
      (''.json'', ''json''), (''.xml'', ''xml''), (''.yaml'', ''yaml''), (''.yml'', ''yaml'')]"

definition getLanguageFromExtension :: "string \<Rightarrow> string" where
  "getLanguageFromExtension ext =
     (case map_of languageMap ext of Some l \<Rightarrow> l | None \<Rightarrow> ''text'')"

subsection \<open>getCodeContext\<close>

definition typeIndicator :: "ChangeType \<Rightarrow> string" where
  "typeIndicator t = (case t of addition \<Rightarrow> ''+'' | deletion \<Rightarrow> ''-'' | context \<Rightarrow> '' '')"

text \<open>The callback of \<open>contextLinesData.map\<close>.\<close>

definition formatContextLine :: "int \<Rightarrow> LineChange \<Rightarrow> string" where
  "formatContextLine targetLineNumber l =
     (let isTarget = (lineNumber l = targetLineNumber);
          pre = (if isTarget then ''> '' else ''  '');
          lineNumberStr = padStart3 (numberToString (lineNumber l))
      in pre @ lineNumberStr @ typeIndicator (type l) @ '' '' @ content l)"

text \<open>\<open>xs.slice(-n)\<close> for \<open>n \<ge> 0\<close>: the last \<open>n\<close> elements, and all of them for \<open>-0\<close>.\<close>

definition sliceLast :: "nat \<Rightarrow> 'a list \<Rightarrow> 'a list" where
  "sliceLast n xs = (if n = 0 then xs else drop (length xs - n) xs)"

text \<open>The sort is stable and ascending by line number. An absent target line gives the
  text of the first return.\<close>

definition getCodeContext :: "FileChange \<Rightarrow> int \<Rightarrow> nat \<Rightarrow> string" where
  "getCodeContext fileChange targetLineNumber contextLines =
     (let allLines = sort_key lineNumber (changes fileChange) in
      case find (\<lambda>l. lineNumber l = targetLineNumber) allLines of
        None \<Rightarrow> ''// Line '' @ numberToString targetLineNumber @ '' not found in changes''
      | Some targetLine \<Rightarrow>
          (let beforeLines = sliceLast contextLines
                 (filter (\<lambda>l. lineNumber l < targetLineNumber
                            \<and> lineNumber l \<ge> targetLineNumber - int contextLines) allLines);
               afterLines = take contextLines
                 (filter (\<lambda>l. lineNumber l > targetLineNumber
                            \<and> lineNumber l \<le> targetLineNumber + int contextLines) allLines);
               contextLinesData = beforeLines @ [targetLine] @ afterLines;
               formattedLines = map (formatContextLine targetLineNumber) contextLinesData
           in if length formattedLines = 1 then
                ''> '' @ padStart3 (numberToString (lineNumber targetLine))
                  @ typeIndicator (type targetLine) @ '' '' @ content targetLine
              else joinWith newline formattedLines))"

text \<open>\<open>createIssue\<close>.\<close>

definition createIssue ::
  "Severity \<Rightarrow> string \<Rightarrow> string \<Rightarrow> string \<Rightarrow> int \<Rightarrow> string \<Rightarrow> FileChange \<Rightarrow> nat \<Rightarrow> ReviewIssue" where
  "createIssue sev ttl descr fname lnum sugg fileChange contextLines =
     \<lparr>severity = sev, title = ttl, description = descr, file = fname, line = Some lnum,
      suggestion = Some sugg,
      codeSnippet = Some (getCodeContext fileChange lnum contextLines),
      language = Some (getLanguageFromExtension (getFileExtension fname))\<rparr>"

section \<open>CodeAnalyzer: the patterns\<close>

text \<open>\<open>/\b(TODO|FIXME)\b/i\<close>\<close>

definition todoRe :: rx where
  "todoRe = seqs [WordBoundary, Grp 1 (Alt (liti ''todo'') (liti ''fixme'')), WordBoundary]"

text \<open>\<open>/(password|secret|key|token)\s*[:=]\s*['""][^'""]+['""]|api_key/i\<close>\<close>

definition secretRe :: rx where
  "secretRe =
     Alt (seqs [Grp 1 (alts (liti ''password'') [liti ''secret'', liti ''key'', liti ''token'']),
                Star space, oneOf '':='', Star space,
                oneOf quotes, Plus (noneOf quotes), oneOf quotes])
         (liti ''api_key'')"

text \<open>\<open>/(['""])[^'""]*(['""])/g\<close>\<close>

definition quotedRe :: rx where
  "quotedRe = seqs [Grp 1 (oneOf quotes), Star (noneOf quotes), Grp 2 (oneOf quotes)]"

text \<open>\<open>/[^=!]==[^=]|[^=!]!=[^=]/\<close>\<close>

definition looseEqualityRe :: rx where
  "looseEqualityRe =
     Alt (seqs [noneOf ''=!'', lit ''=='', noneOf ''=''])
         (seqs [noneOf ''=!'', lit ''!='', noneOf ''=''])"

text \<open>\<open>/\w+\.\w+/\<close>, \<open>/\?\./\<close> and \<open>/if\s*\(|&&|catch|try/\<close>\<close>

definition propertyAccessRe :: rx where
  "propertyAccessRe = seqs [Plus wordChar, lit ''.'', Plus wordChar]"

definition optionalChainRe :: rx where
  "optionalChainRe = lit ''?.''"

definition guardRe :: rx where
  "guardRe = alts (seqs [lit ''if'', Star space, lit ''(''])
                  [lit ''&&'', lit ''catch'', lit ''try'']"

text \<open>\<open>/if\s*\([^)]*null/\<close>, \<open>/if\s*\([^)]*undefined/\<close> and \<open>/&&\s*\w+/\<close>\<close>

definition ifNullRe :: rx where
  "ifNullRe = seqs [lit ''if'', Star space, lit ''('', Star (noneOf '')''), lit ''null'']"

definition ifUndefinedRe :: rx where
  "ifUndefinedRe = seqs [lit ''if'', Star space, lit ''('', Star (noneOf '')''), lit ''undefined'']"

definition andWordRe :: rx where
  "andWordRe = seqs [lit ''&&'', Star space, Plus wordChar]"

text \<open>\<open>/\[\s*\d+\s*\]/\<close>, \<open>/\[.*\]/\<close> and \<open>/\.length/\<close>\<close>

definition numericIndexRe :: rx where
  "numericIndexRe = seqs [lit ''['', Star space, Plus digit, Star space, lit '']'']"

definition bracketRe :: rx where
  "bracketRe = seqs [lit ''['', Star anyChar, lit '']'']"

definition lengthRe :: rx where
  "lengthRe = lit ''.length''"

text \<open>\<open>/while\s*\(\s*true\s*\)|for\s*\(\s*;\s*;\s*\)/\<close>\<close>

definition infiniteLoopRe :: rx where
  "infiniteLoopRe =
     Alt (seqs [lit ''while'', Star space, lit ''('', Star space, lit ''true'', Star space,
                lit '')''])
         (seqs [lit ''for'', Star space, lit ''('', Star space, lit '';'', Star space, lit '';'',
                Star space, lit '')''])"

text \<open>\<open>/if\s*\([^)]*=[^=]/\<close>\<close>

definition assignmentInConditionRe :: rx where
  "assignmentInConditionRe =
     seqs [lit ''if'', Star space, lit ''('', Star (noneOf '')''), lit ''='', noneOf ''='']"

text \<open>\<open>/return.*\n.*[^}]/\<close>\<close>

definition unreachableRe :: rx where
  "unreachableRe =
     seqs [lit ''return'', Star anyChar, lit newline, Star anyChar, noneOf ''}'']"

text \<open>\<open>/\+\s*['""]|['""].*\+/\<close>\<close>

definition coercionRe :: rx where
  "coercionRe =
     Alt (seqs [lit ''+'', Star space, oneOf quotes])
         (seqs [oneOf quotes, Star anyChar, lit ''+''])"

text \<open>The four patterns of \<open>isFunctionDeclaration\<close>:
  \<open>/^[\s]*(?:export\s+)?(?:async\s+)?function\s+\w+/\<close>,
  \<open>/^[\s]*(?:const|let|var)\s+\w+\s*=\s*(?:async\s+)?\([^)]*\)\s*=>/\<close>,
  \<open>/^[\s]*(?:async\s+)?\w+\s*\([^)]*\)\s*\{/\<close> and
  \<open>/^[\s]*(?:public|private|protected)\s+(?:async\s+)?\w+\s*\([^)]*\)/\<close>\<close>

definition functionKeywordRe :: rx where
  "functionKeywordRe =
     seqs [Bol, Star space, Opt (seqs [lit ''export'', Plus space]),
           Opt (seqs [lit ''async'', Plus space]), lit ''function'', Plus space, Plus wordChar]"

definition arrowFunctionRe :: rx where
  "arrowFunctionRe =
     seqs [Bol, Star space, alts (lit ''const'') [lit ''let'', lit ''var''], Plus space,
           Plus wordChar, Star space, lit ''='', Star space,
           Opt (seqs [lit ''async'', Plus space]),
           lit ''('', Star (noneOf '')''), lit '')'', Star space, lit ''=>'']"

definition methodRe :: rx where
  "methodRe =
     seqs [Bol, Star space, Opt (seqs [lit ''async'', Plus space]), Plus wordChar, Star space,
           lit ''('', Star (noneOf '')''), lit '')'', Star space, lit ''{'']"

definition memberRe :: rx where
  "memberRe =
     seqs [Bol, Star space, alts (lit ''public'') [lit ''private'', lit ''protected''],
           Plus space, Opt (seqs [lit ''async'', Plus space]), Plus wordChar, Star space,
           lit ''('', Star (noneOf '')''), lit '')'']"

text \<open>\<open>/^[\s]*(?:export\s+)?class\s+\w+/\<close> and \<open>/class\s+(\w+)/\<close>\<close>

definition classDeclarationRe :: rx where
  "classDeclarationRe =
     seqs [Bol, Star space, Opt (seqs [lit ''export'', Plus space]), lit ''class'', Plus space,
           Plus wordChar]"

definition classNameRe :: rx where
  "classNameRe = seqs [lit ''class'', Plus space, Grp 1 (Plus wordChar)]"

text \<open>\<open>/\/\*\*/\<close>, \<open>/\*\//\<close> and \<open>/^\s*[\*\/]/\<close>\<close>

definition docStartRe :: rx where
  "docStartRe = lit ''/**''"

definition docEndRe :: rx where
  "docEndRe = lit ''*/''"

definition docLineRe :: rx where
  "docLineRe = seqs [Bol, Star space, oneOf ''*/'']"

text \<open>\<open>/(?:function\s+(\w+)|(\w+)\s*\(|(\w+)\s*=)/\<close> and \<open>/\(([^)]*)\)/\<close>\<close>

definition functionNameRe :: rx where
  "functionNameRe =
     alts (seqs [lit ''function'', Plus space, Grp 1 (Plus wordChar)])
          [seqs [Grp 2 (Plus wordChar), Star space, lit ''(''],
           seqs [Grp 3 (Plus wordChar), Star space, lit ''='']]"

definition paramsRe :: rx where
  "paramsRe = seqs [lit ''('', Grp 1 (Star (noneOf '')'')), lit '')'']"

text \<open>\<open>/\s+/\<close> and \<open>/[=:].*/\<close>\<close>

definition spacesRe :: rx where
  "spacesRe = Plus space"

definition defaultValueRe :: rx where
  "defaultValueRe = seqs [oneOf ''=:'', Star anyChar]"

text \<open>\<open>/for\s*\([^)]*\.length[^)]*\)/\<close>, \<open>/for\s*\(/\<close> and
  \<open>/for\s*\(|while\s*\(|forEach\s*\(/\<close>\<close>

definition lengthInLoopRe :: rx where
  "lengthInLoopRe =
     seqs [lit ''for'', Star space, lit ''('', Star (noneOf '')''), lit ''.length'',
           Star (noneOf '')''), lit '')'']"

definition forRe :: rx where
  "forRe = seqs [lit ''for'', Star space, lit ''('']"

definition loopRe :: rx where
  "loopRe = alts (seqs [lit ''for'', Star space, lit ''(''])
                 [seqs [lit ''while'', Star space, lit ''(''],
                  seqs [lit ''forEach'', Star space, lit ''('']]"

text \<open>\<open>/\.(readFileSync|writeFileSync|existsSync|statSync)\s*\(/\<close>\<close>

definition syncFileRe :: rx where
  "syncFileRe =
     seqs [lit ''.'', Grp 1 (alts (lit ''readFileSync'')
             [lit ''writeFileSync'', lit ''existsSync'', lit ''statSync'']),
           Star space, lit ''('']"

text \<open>\<open>/\+=.*['""]/\<close> and \<open>/function.*\(.*\).*\{/\<close>\<close>

definition concatenationRe :: rx where
  "concatenationRe = seqs [lit ''+='', Star anyChar, oneOf quotes]"

definition functionBodyRe :: rx where
  "functionBodyRe =
     seqs [lit ''function'', Star anyChar, lit ''('', Star anyChar, lit '')'', Star anyChar,
           lit ''{'']"

text \<open>The patterns of \<open>hasExpensiveOperation\<close>: \<open>/sort\s*\(/\<close>, \<open>/filter\s*\(/\<close>,
  \<open>/map\s*\(/\<close>, \<open>/reduce\s*\(/\<close>, \<open>/JSON\.parse|JSON\.stringify/\<close> and
  \<open>/RegExp|new\s+RegExp/\<close>\<close>

definition callRe :: "string \<Rightarrow> rx" where
  "callRe f = seqs [lit f, Star space, lit ''('']"

definition jsonRe :: rx where
  "jsonRe = Alt (lit ''JSON.parse'') (lit ''JSON.stringify'')"

definition regExpRe :: rx where
  "regExpRe = Alt (lit ''RegExp'') (seqs [lit ''new'', Plus space, lit ''RegExp''])"

section \<open>CodeAnalyzer: the detectors\<close>

text \<open>\<open>fileChange.changes.filter(c => c.type === 'addition')\<close>.\<close>

definition addedLinesOf :: "FileChange \<Rightarrow> LineChange list" where
  "addedLinesOf fileChange = filter (\<lambda>c. type c = addition) (changes fileChange)"

subsection \<open>analyzeCodeQuality\<close>

definition analyzeCodeQuality :: "FileChange \<Rightarrow> ReviewIssue list" where
  "analyzeCodeQuality fileChange =
     concat (map (\<lambda>l.
       (if length (content l) > 120 then
          [createIssue minor ''Long line detected''
             (''Line is '' @ natToString (length (content l)) @ '' characters long'')
             (fileName fileChange) (lineNumber l)
             ''Break into multiple lines for better readability'' fileChange 3]
        else [])
       @ (if matches (content l) todoRe then
            [createIssue info ''TODO/FIXME comment found'' ''Unresolved TODO or FIXME comment''
               (fileName fileChange) (lineNumber l)
               ''Address the TODO or create a proper issue'' fileChange 2]
          else []))
       (addedLinesOf fileChange))"

subsection \<open>analyzeSecurityIssues\<close>

text \<open>\<open>s.replace(/(['""])[^'""]*(['""])/g, '$1***$2')\<close> from position \<open>p\<close> on. A match
  holds two quote characters, so it is never empty.\<close>

function maskLiterals :: "string \<Rightarrow> nat \<Rightarrow> string" where
  "maskLiterals s p =
     (case matchFrom quotedRe s p (length s - p) of
        None \<Rightarrow> drop p s
      | Some m \<Rightarrow>
          (if p < fst (snd m) \<and> fst (snd m) \<le> length s then
             take (fst m - p) (drop p s)
               @ (case group 1 m of Some g \<Rightarrow> g | None \<Rightarrow> [])
               @ ''***''
               @ (case group 2 m of Some g \<Rightarrow> g | None \<Rightarrow> [])
               @ maskLiterals s (fst (snd m))
           else drop p s))"
  by pat_completeness auto
termination
  by (relation "measure (\<lambda>(s, p). length s - p)") auto

definition analyzeSecurityIssues :: "FileChange \<Rightarrow> ReviewIssue list" where
  "analyzeSecurityIssues fileChange =
     concat (map (\<lambda>l.
       (if matches (content l) secretRe then
          [\<lparr>severity = critical, title = ''Potential hardcoded secret'',
            description = ''Possible hardcoded credential or secret'',
            file = fileName fileChange, line = Some (lineNumber l),
            suggestion = Some ''Move to environment variables'',
            codeSnippet = Some (maskLiterals (getCodeContext fileChange (lineNumber l) 2) 0),
            language = None\<rparr>]
        else []))
       (addedLinesOf fileChange))"

subsection \<open>analyzeBestPractices\<close>

definition analyzeBestPractices :: "FileChange \<Rightarrow> ReviewIssue list" where
  "analyzeBestPractices fileChange =
     (let fileExt = getFileExtension (fileName fileChange) in
      if fileExt = ''.ts'' \<or> fileExt = ''.js'' then
        concat (map (\<lambda>l.
          (if matches (content l) looseEqualityRe then
             [\<lparr>severity = minor, title = ''Use strict equality'',
               description = ''Using loose equality instead of strict'',
               file = fileName fileChange, line = Some (lineNumber l),
               suggestion = Some ''Use === or !== for strict comparison'',
               codeSnippet = Some (getCodeContext fileChange (lineNumber l) 2),
               language = None\<rparr>]
           else []))
          (addedLinesOf fileChange))
      else [])"

subsection \<open>analyzeLogicalBugs\<close>

definition hasNullCheckNearby :: "FileChange \<Rightarrow> int \<Rightarrow> bool" where
  "hasNullCheckNearby fileChange lnum =
     (let contextLines = filter (\<lambda>c.
            \<bar>lineNumber c - lnum\<bar> \<le> 3
            \<and> (matches (content c) ifNullRe \<or> matches (content c) ifUndefinedRe
               \<or> matches (content c) andWordRe \<or> matches (content c) optionalChainRe))
          (changes fileChange)
      in length contextLines > 0)"

text \<open>The body of the loop over the added lines.\<close>

definition logicalBugsOfLine :: "FileChange \<Rightarrow> string \<Rightarrow> LineChange \<Rightarrow> ReviewIssue list" where
  "logicalBugsOfLine fileChange fileExt l =
     (if matches (content l) propertyAccessRe \<and> \<not> matches (content l) optionalChainRe
         \<and> \<not> hasNullCheckNearby fileChange (lineNumber l)
         \<and> \<not> matches (content l) guardRe then
        [\<lparr>severity = major, title = ''Potential null/undefined access'',
          description = ''Object property access without null checking'',
          file = fileName fileChange, line = Some (lineNumber l),
          suggestion = Some ''Add null check or use optional chaining (?.)'',
          codeSnippet = Some (getCodeContext fileChange (lineNumber l) 3),
          language = None\<rparr>]
      else [])
     @ (if matches (content l) numericIndexRe
           \<or> (matches (content l) bracketRe \<and> \<not> matches (content l) lengthRe) then
          [\<lparr>severity = minor, title = ''Array access without bounds check'',
            description = ''Direct array indexing without length validation'',
            file = fileName fileChange, line = Some (lineNumber l),
            suggestion = Some ''Check array length before accessing elements'',
            codeSnippet = Some (getCodeContext fileChange (lineNumber l) 2),
            language = None\<rparr>]
        else [])
     @ (if matches (content l) infiniteLoopRe then
          [\<lparr>severity = major, title = ''Potential infinite loop'',
            description = ''Loop condition that may never become false'',
            file = fileName fileChange, line = Some (lineNumber l),
            suggestion = Some ''Add proper exit condition or break statement'',
            codeSnippet = Some (getCodeContext fileChange (lineNumber l) 4),
            language = None\<rparr>]
        else [])
     @ (if matches (content l) assignmentInConditionRe then
          [\<lparr>severity = major, title = ''Assignment in conditional'',
            description = ''Assignment (=) used instead of comparison (==, ===)'',
            file = fileName fileChange, line = Some (lineNumber l),
            suggestion = Some
              ''Use comparison operator or wrap assignment in extra parentheses if intentional'',
            codeSnippet = Some (getCodeContext fileChange (lineNumber l) 3),
            language = None\<rparr>]
        else [])
     @ (if matches (content l) unreachableRe then
          [\<lparr>severity = minor, title = ''Potentially unreachable code'',
            description = ''Code after return statement may be unreachable'',
            file = fileName fileChange, line = Some (lineNumber l),
            suggestion = Some ''Remove unreachable code or restructure logic'',
            codeSnippet = Some (getCodeContext fileChange (lineNumber l) 4),
            language = None\<rparr>]
        else [])
     @ (if (fileExt = ''.js'' \<or> fileExt = ''.ts'') \<and> matches (content l) coercionRe then
          [\<lparr>severity = minor, title = ''Potential type coercion'',
            description =
              ''String concatenation with + operator may cause unexpected type conversion'',
            file = fileName fileChange, line = Some (lineNumber l),
            suggestion = Some ''Use template literals or explicit type conversion'',
            codeSnippet = Some (getCodeContext fileChange (lineNumber l) 2),
            language = None\<rparr>]
        else [])"

definition analyzeLogicalBugs :: "FileChange \<Rightarrow> ReviewIssue list" where
  "analyzeLogicalBugs fileChange =
     (let fileExt = getFileExtension (fileName fileChange) in
      concat (map (logicalBugsOfLine fileChange fileExt) (addedLinesOf fileChange)))"

subsection \<open>analyzeJSDocIssues\<close>

definition isFunctionDeclaration :: "string \<Rightarrow> bool" where
  "isFunctionDeclaration c =
     (matches c functionKeywordRe \<or> matches c arrowFunctionRe \<or> matches c methodRe
      \<or> matches c memberRe)"

text \<open>The loop of \<open>hasJSDocAbove\<close>, over the lines above the current one, the nearest
  first.\<close>

fun scanJSDocAbove :: "LineChange list \<Rightarrow> bool" where
  "scanJSDocAbove [] = False"
| "scanJSDocAbove (l # ls) =
     (if matches (content l) docEndRe then True
      else if trim (content l) \<noteq> [] \<and> \<not> matches (content l) docLineRe then False
      else scanJSDocAbove ls)"

text \<open>The loop visits the indices \<open>currentIndex - 1\<close> down to \<open>currentIndex - 5\<close>, as far as
  they exist.\<close>

definition hasJSDocAbove :: "LineChange list \<Rightarrow> nat \<Rightarrow> bool" where
  "hasJSDocAbove ls currentIndex =
     (if currentIndex = 0 then False
      else scanJSDocAbove (take 5 (rev (take currentIndex ls))))"

record FunctionInfo =
  name :: string
  params :: "string list"
  hasReturn :: bool

text \<open>\<open>a || b\<close> on strings: an undefined or empty \<open>a\<close> gives \<open>b\<close>.\<close>

definition orElse :: "string option \<Rightarrow> string \<Rightarrow> string" where
  "orElse a b = (case a of Some g \<Rightarrow> (if g \<noteq> [] then g else b) | None \<Rightarrow> b)"

text \<open>\<open>p.split(/\s+/)[0]\<close>: the text before the first match, the whole text without one.\<close>

definition firstPiece :: "rx \<Rightarrow> string \<Rightarrow> string" where
  "firstPiece r p = (case matchRe r p of Some m \<Rightarrow> take (fst m) p | None \<Rightarrow> p)"

text \<open>\<open>p.replace(r, '')\<close> without the global flag: the first match is removed.\<close>

definition removeFirst :: "rx \<Rightarrow> string \<Rightarrow> string" where
  "removeFirst r p =
     (case matchRe r p of Some m \<Rightarrow> take (fst m) p @ drop (fst (snd m)) p | None \<Rightarrow> p)"

definition extractFunctionInfo :: "string \<Rightarrow> FunctionInfo" where
  "extractFunctionInfo c =
     (let functionMatch = matchRe functionNameRe c;
          paramsMatch = matchRe paramsRe c
      in \<lparr>name =
            (case functionMatch of
               Some m \<Rightarrow> orElse (group 1 m) (orElse (group 2 m) (orElse (group 3 m) ''anonymous''))
             | None \<Rightarrow> ''anonymous''),
          params =
            (case paramsMatch of
               Some m \<Rightarrow>
                 (case group 1 m of
                    Some g \<Rightarrow>
                      (if g \<noteq> [] then
                         map (\<lambda>p. removeFirst defaultValueRe (firstPiece spacesRe (trim p)))
                             (splitChar (CHR '','') g)
                       else [])
                  | None \<Rightarrow> [])
             | None \<Rightarrow> []),
          hasReturn = (includesStr c ''return'' \<or> includesStr c ''=>'')\<rparr>)"

definition generateJSDocSuggestion :: "FunctionInfo \<Rightarrow> string" where
  "generateJSDocSuggestion functionInfo =
     ''/**'' @ newline @ '' * Description of '' @ name functionInfo @ newline
     @ concat (map (\<lambda>param.
         if trim param \<noteq> [] then
           '' * @param {*} '' @ trim param @ '' - Description'' @ newline
         else [])
         (params functionInfo))
     @ (if hasReturn functionInfo then '' * @returns {*} Description'' @ newline else [])
     @ '' */''"

text \<open>The loop of \<open>extractJSDocBlock\<close>, over the lines from the start index on.\<close>

fun jsDocBlockOf :: "LineChange list \<Rightarrow> string" where
  "jsDocBlockOf [] = []"
| "jsDocBlockOf (l # ls) =
     content l @ newline @ (if includesStr (content l) ''*/'' then [] else jsDocBlockOf ls)"

definition extractJSDocBlock :: "LineChange list \<Rightarrow> nat \<Rightarrow> string" where
  "extractJSDocBlock ls startIndex = jsDocBlockOf (drop startIndex ls)"

text \<open>The loop of \<open>findNextFunction\<close> visits the indices \<open>startIndex + 1\<close> to
  \<open>startIndex + 9\<close>, as far as they exist.\<close>

definition findNextFunction :: "LineChange list \<Rightarrow> nat \<Rightarrow> LineChange option" where
  "findNextFunction ls startIndex =
     find (\<lambda>l. isFunctionDeclaration (content l)) (take 9 (drop (startIndex + 1) ls))"

definition validateJSDoc :: "string \<Rightarrow> FunctionInfo \<Rightarrow> string list" where
  "validateJSDoc jsDocBlock functionInfo =
     concat (map (\<lambda>param.
         if (trim param \<noteq> [] \<and> \<not> includesStr jsDocBlock ''@param'')
            \<or> \<not> includesStr jsDocBlock param
         then [''Missing @param for '' @ apostrophe @ param @ apostrophe]
         else [])
         (params functionInfo))
     @ (if hasReturn functionInfo \<and> \<not> includesStr jsDocBlock ''@returns''
           \<and> \<not> includesStr jsDocBlock ''@return''
        then [''Missing @returns documentation''] else [])"

text \<open>The body of the loop over the indices of the added lines.\<close>

definition jsDocIssuesAt :: "FileChange \<Rightarrow> LineChange list \<Rightarrow> nat \<Rightarrow> ReviewIssue list" where
  "jsDocIssuesAt fileChange addedLines i =
     (let l = addedLines ! i in
      (if isFunctionDeclaration (content l) \<and> \<not> hasJSDocAbove addedLines i then
         (let functionInfo = extractFunctionInfo (content l) in
          [\<lparr>severity = minor, title = ''Missing JSDoc documentation'',
            description = ''Function '' @ apostrophe @ name functionInfo @ apostrophe
              @ '' lacks JSDoc documentation'',
            file = fileName fileChange, line = Some (lineNumber l),
            suggestion = Some (generateJSDocSuggestion functionInfo),
            codeSnippet = Some (getCodeContext fileChange (lineNumber l) 3),
            language = None\<rparr>])
       else [])
      @ (if matches (content l) classDeclarationRe \<and> \<not> hasJSDocAbove addedLines i then
           (let className =
                  (case matchRe classNameRe (content l) of
                     Some m \<Rightarrow> orElse (group 1 m) ''Unknown''
                   | None \<Rightarrow> ''Unknown'')
            in [\<lparr>severity = minor, title = ''Missing class JSDoc'',
                 description = ''Class '' @ apostrophe @ className @ apostrophe
                   @ '' lacks JSDoc documentation'',
                 file = fileName fileChange, line = Some (lineNumber l),
                 suggestion = Some (''Add JSDoc:'' @ newline @ ''/**'' @ newline
                   @ '' * Description of '' @ className @ '' class'' @ newline @ '' */''),
                 codeSnippet = Some (getCodeContext fileChange (lineNumber l) 3),
                 language = None\<rparr>])
         else [])
      @ (if matches (content l) docStartRe then
           (let jsDocBlock = extractJSDocBlock addedLines i in
            case findNextFunction addedLines i of
              Some nextFunctionLine \<Rightarrow>
                map (\<lambda>issue.
                  \<lparr>severity = minor, title = ''Incomplete JSDoc'', description = issue,
                   file = fileName fileChange, line = Some (lineNumber l),
                   suggestion = Some ''Add missing JSDoc tags (@param, @returns, @throws)'',
                   codeSnippet = Some (take 100 jsDocBlock @ ''...''),
                   language = None\<rparr>)
                  (validateJSDoc jsDocBlock (extractFunctionInfo (content nextFunctionLine)))
            | None \<Rightarrow> [])
         else []))"

definition analyzeJSDocIssues :: "FileChange \<Rightarrow> ReviewIssue list" where
  "analyzeJSDocIssues fileChange =
     (let fileExt = getFileExtension (fileName fileChange) in
      if fileExt \<noteq> ''.js'' \<and> fileExt \<noteq> ''.ts'' \<and> fileExt \<noteq> ''.jsx'' \<and> fileExt \<noteq> ''.tsx''
      then []
      else (let addedLines = addedLinesOf fileChange in
            concat (map (jsDocIssuesAt fileChange addedLines) [0..<length addedLines])))"

subsection \<open>analyzePerformanceIssues\<close>

definition hasNestedLoop :: "FileChange \<Rightarrow> int \<Rightarrow> bool" where
  "hasNestedLoop fileChange lnum =
     (let nextLines = filter (\<lambda>c. lineNumber c > lnum \<and> lineNumber c \<le> lnum + 20)
                             (changes fileChange)
      in list_ex (\<lambda>l. matches (content l) loopRe) nextLines)"

definition hasExpensiveOperation :: "string \<Rightarrow> bool" where
  "hasExpensiveOperation c =
     (matches c (callRe ''sort'') \<or> matches c (callRe ''filter'') \<or> matches c (callRe ''map'')
      \<or> matches c (callRe ''reduce'') \<or> matches c jsonRe \<or> matches c regExpRe)"

definition analyzePerformanceIssues :: "FileChange \<Rightarrow> ReviewIssue list" where
  "analyzePerformanceIssues fileChange =
     (let fileExt = getFileExtension (fileName fileChange) in
      concat (map (\<lambda>l.
        (if matches (content l) lengthInLoopRe then
           [\<lparr>severity = minor, title = ''Inefficient loop condition'',
             description = ''Array length accessed in every loop iteration'',
             file = fileName fileChange, line = Some (lineNumber l),
             suggestion = Some ''Cache array length in a variable before the loop'',
             codeSnippet = Some (getCodeContext fileChange (lineNumber l) 3),
             language = None\<rparr>]
         else [])
        @ (if matches (content l) forRe \<and> hasNestedLoop fileChange (lineNumber l) then
             [\<lparr>severity = minor, title = ''Nested loop detected'',
               description = ''Nested loops can have O(n'' @ [CHR 0xB2] @ '') complexity'',
               file = fileName fileChange, line = Some (lineNumber l),
               suggestion = Some
                 ''Consider optimizing with better data structures or algorithms'',
               codeSnippet = Some (getCodeContext fileChange (lineNumber l) 4),
               language = None\<rparr>]
           else [])
        @ (if matches (content l) syncFileRe then
             [\<lparr>severity = major, title = ''Synchronous file operation'',
               description = ''Synchronous operations block the event loop'',
               file = fileName fileChange, line = Some (lineNumber l),
               suggestion = Some ''Use asynchronous alternatives with async/await'',
               codeSnippet = Some (getCodeContext fileChange (lineNumber l) 3),
               language = None\<rparr>]
           else [])
        @ (if matches (content l) concatenationRe \<and> (fileExt = ''.js'' \<or> fileExt = ''.ts'') then
             [\<lparr>severity = minor, title = ''Inefficient string concatenation'',
               description = ''String concatenation in loops can be inefficient'',
               file = fileName fileChange, line = Some (lineNumber l),
               suggestion = Some
                 ''Use array.join() or template literals for better performance'',
               codeSnippet = Some (getCodeContext fileChange (lineNumber l) 3),
               language = None\<rparr>]
           else [])
        @ (if matches (content l) functionBodyRe \<and> hasExpensiveOperation (content l) then
             [\<lparr>severity = info, title = ''Consider memoization'',
               description =
                 ''Function with expensive operations could benefit from memoization'',
               file = fileName fileChange, line = Some (lineNumber l),
               suggestion = Some
                 ''Consider caching results for repeated calls with same parameters'',
               codeSnippet = Some (getCodeContext fileChange (lineNumber l) 4),
               language = None\<rparr>]
           else []))
        (addedLinesOf fileChange)))"

section \<open>ReviewPromptManager (review-prompts.ts)\<close>

text \<open>The template \<open>comprehensive\<close>, line by line. \<open>getTemplate\<close> returns it for that
  name.\<close>

definition comprehensiveTemplate :: string where
  "comprehensiveTemplate = joinWith [CHR 0x0A]
     [ [],
      ''      Perform a comprehensive code review focusing on:'',
      ''      1. Code quality and maintainability'',
      ''      2. Security vulnerabilities and best practices'',
      ''      3. Performance considerations'',
      ''      4. Logic errors and potential bugs'',
      ''      5. Adherence to coding standards'',
      ''      6. Documentation and comments'',
      ''      7. Test coverage considerations'',
      ''      '',
      ''      For each issue found, provide:'',
      ''      - Severity level (critical/major/minor/info)'',
      ''      - Clear description of the problem'',
      ''      - Specific suggestion for improvement'',
      ''      - Line number reference where applicable'',
      ''    '']"

section \<open>CodeAnalyzer.analyzeFileChange and generateSummary\<close>

text \<open>The prompt is a parameter that the bodies never read.\<close>

definition analyzeFileChange :: "FileChange \<Rightarrow> string \<Rightarrow> ReviewIssue list" where
  "analyzeFileChange fileChange prompt =
     analyzeCodeQuality fileChange
     @ analyzeSecurityIssues fileChange
     @ analyzeBestPractices fileChange
     @ analyzeLogicalBugs fileChange
     @ analyzeJSDocIssues fileChange
     @ analyzePerformanceIssues fileChange"

text \<open>The three pictographs of the summary lie outside the code units of the model; they
  stand as their UTF-8 bytes.\<close>

definition checkMark :: string where
  "checkMark = [CHR 0xE2, CHR 0x9C, CHR 0x85]"

definition policeLight :: string where
  "policeLight = [CHR 0xF0, CHR 0x9F, CHR 0x9A, CHR 0xA8]"

definition warningSign :: string where
  "warningSign = [CHR 0xE2, CHR 0x9A, CHR 0xA0, CHR 0xEF, CHR 0xB8, CHR 0x8F]"

definition generateSummary :: "FileChange list \<Rightarrow> ReviewIssue list \<Rightarrow> string \<Rightarrow> string" where
  "generateSummary files found prompt =
     (let totalFiles = length files;
          totalAdditions = foldl (\<lambda>acc f. acc + additions f) 0 files;
          totalDeletions = foldl (\<lambda>acc f. acc + deletions f) 0 files;
          criticalIssues = length (filter (\<lambda>i. severity i = critical) found);
          majorIssues = length (filter (\<lambda>i. severity i = major) found)
      in ''This code review analyzed '' @ natToString totalFiles @ '' files with ''
         @ natToString totalAdditions @ '' additions and '' @ natToString totalDeletions
         @ '' deletions.'' @ newline @ newline
         @ (if length found = 0 then
              checkMark @ '' **Excellent work!** No significant issues were found.''
            else
              ''Found '' @ natToString (length found) @ '' issues:'' @ newline
              @ (if criticalIssues > 0 then
                   ''- '' @ policeLight @ '' '' @ natToString criticalIssues
                     @ '' critical issues'' @ newline
                 else [])
              @ (if majorIssues > 0 then
                   ''- '' @ warningSign @ '' '' @ natToString majorIssues
                     @ '' major issues'' @ newline
                 else [])))"

section \<open>CodeReviewer.analyzeDiff\<close>

definition getSeverityWeight :: "Severity \<Rightarrow> int" where
  "getSeverityWeight s = (case s of critical \<Rightarrow> 4 | major \<Rightarrow> 3 | minor \<Rightarrow> 2 | info \<Rightarrow> 1)"

text \<open>\<open>issues.sort((a, b) => getSeverityWeight(b.severity) - getSeverityWeight(a.severity))\<close>:
  the sort of the language is stable, and the comparator orders by falling weight.\<close>

definition sortBySeverity :: "ReviewIssue list \<Rightarrow> ReviewIssue list" where
  "sortBySeverity found = sort_key (\<lambda>i. - getSeverityWeight (severity i)) found"

text \<open>The issues that the loop over the filtered files collects.\<close>

definition collectIssues :: "FileChange list \<Rightarrow> string \<Rightarrow> ReviewIssue list" where
  "collectIssues filteredFiles prompt =
     concat (map (\<lambda>fileChange. analyzeFileChange fileChange prompt) filteredFiles)"

text \<open>The summary of the version-control client is a parameter that the body never reads.\<close>

definition analyzeDiff :: "string \<Rightarrow> 's \<Rightarrow> 'o ReviewOptions_scheme \<Rightarrow> ReviewResult" where
  "analyzeDiff diff diffSummary options =
     (let parsedDiff = parseDiff diff;
          filteredFiles = filterFiles parsedDiff (fileExtensions options) (excludePatterns options);
          prompt = orElse (reviewPrompt options) comprehensiveTemplate;
          found = collectIssues filteredFiles prompt;
          totalLinesAdded = foldl (\<lambda>acc f. acc + additions f) 0 filteredFiles;
          totalLinesRemoved = foldl (\<lambda>acc f. acc + deletions f) 0 filteredFiles;
          generated = generateSummary filteredFiles found prompt
      in \<lparr>filesChanged = length filteredFiles,
          linesAdded = totalLinesAdded,
          linesRemoved = totalLinesRemoved,
          issues = sortBySeverity found,
          summary = Some generated\<rparr>)"

section \<open>Definitions used to state the properties\<close>

text \<open>The invariant of the loop over the lines: the two counters agree with the changes
  recorded so far.\<close>

definition countsOk :: "ParseState \<Rightarrow> bool" where
  "countsOk st = (st_additions st = length (filter (\<lambda>c. type c = addition) (st_changes st))
     \<and> st_deletions st = length (filter (\<lambda>c. type c = deletion) (st_changes st)))"

text \<open>The file filter as the specification words it: a file is kept when its name ends with
  one of the extensions and contains none of the exclude patterns, both compared in lower
  case; an absent or empty list imposes nothing.\<close>

definition passesFilterSpec ::
  "string list option \<Rightarrow> string list option \<Rightarrow> FileChange \<Rightarrow> bool" where
  "passesFilterSpec extensions excludes f =
     ((case extensions of
         Some exts \<Rightarrow> exts \<noteq> [] \<longrightarrow>
           (\<exists>e \<in> set exts. suffix (toLowerCase e) (toLowerCase (fileName f)))
       | None \<Rightarrow> True)
      \<and> (case excludes of
         Some pats \<Rightarrow> pats \<noteq> [] \<longrightarrow>
           (\<forall>p \<in> set pats. \<not> sublist (toLowerCase p) (toLowerCase (fileName f)))
       | None \<Rightarrow> True))"

text \<open>How the loop treats a line: as an addition, as a deletion, as context, as a hunk header
  whose offsets parse, or not at all.\<close>

definition recordsAddition :: "string \<Rightarrow> bool" where
  "recordsAddition l = (startsWith l ''+'' \<and> \<not> startsWith l ''+++'')"

definition recordsDeletion :: "string \<Rightarrow> bool" where
  "recordsDeletion l = (startsWith l ''-'' \<and> \<not> startsWith l ''---'')"

definition recordsContext :: "string \<Rightarrow> bool" where
  "recordsContext l = (isContextLine l \<and> \<not> startsWith l ''+'' \<and> \<not> startsWith l ''-'')"

definition recorded :: "string \<Rightarrow> bool" where
  "recorded l = (recordsAddition l \<or> recordsDeletion l \<or> recordsContext l)"

definition isHunkHeader :: "string \<Rightarrow> bool" where
  "isHunkHeader l = (startsWith l ''@@'' \<and> matchHunkHeader l \<noteq> None)"


text \<open>The lines that follow the last hunk header of a list of lines (all of them when there is
  no hunk header), and the starting offsets which that header declares (zero without one).\<close>

definition sinceHunk :: "string list \<Rightarrow> string list" where
  "sinceHunk pre = rev (takeWhile (\<lambda>l. \<not> isHunkHeader l) (rev pre))"

definition hunkStart :: "string list \<Rightarrow> int \<times> int" where
  "hunkStart pre =
     (case dropWhile (\<lambda>l. \<not> isHunkHeader l) (rev pre) of
        [] \<Rightarrow> (0, 0)
      | h # _ \<Rightarrow> (case matchHunkHeader h of Some r \<Rightarrow> r | None \<Rightarrow> (0, 0)))"

text \<open>The number in the old file and in the new file of the line that follows the lines
  \<open>pre\<close>, counting the lines that the loop records: the declared start of the hunk plus the
  deletions and context lines, respectively the additions and context lines, since its
  header.\<close>

definition oldNumber :: "string list \<Rightarrow> int" where
  "oldNumber pre = fst (hunkStart pre)
     + int (length (filter (\<lambda>l. recordsDeletion l \<or> recordsContext l) (sinceHunk pre)))"

definition newNumber :: "string list \<Rightarrow> int" where
  "newNumber pre = snd (hunkStart pre)
     + int (length (filter (\<lambda>l. recordsAddition l \<or> recordsContext l) (sinceHunk pre)))"


definition oldContextNumbering :: "ChangeType \<Rightarrow> string list \<Rightarrow> int" where
  "oldContextNumbering t pre = (case t of addition \<Rightarrow> newNumber pre
     | deletion \<Rightarrow> oldNumber pre | context \<Rightarrow> oldNumber pre)"

text \<open>The type and the content of the change recorded for a line.\<close>

definition lineType :: "string \<Rightarrow> ChangeType" where
  "lineType l = (if recordsAddition l then addition
     else if recordsDeletion l then deletion else context)"

definition lineContent :: "string \<Rightarrow> string" where
  "lineContent l = (if recordsAddition l \<or> recordsDeletion l then drop 1 l
     else if startsWith l '' '' then drop 1 l else l)"

text \<open>The change recorded for the line \<open>l\<close> that follows the lines \<open>pre\<close>, under a numbering,
  and the changes of a whole list of lines.\<close>

definition changeAt ::
  "(ChangeType \<Rightarrow> string list \<Rightarrow> int) \<Rightarrow> string list \<Rightarrow> string \<Rightarrow> LineChange list" where
  "changeAt num pre l =
     (if recorded l then
        [\<lparr>type = lineType l, lineNumber = num (lineType l) pre, content = lineContent l\<rparr>]
      else [])"

fun changesFrom ::
  "(ChangeType \<Rightarrow> string list \<Rightarrow> int) \<Rightarrow> string list \<Rightarrow> string list \<Rightarrow> LineChange list" where
  "changesFrom num pre [] = []"
| "changesFrom num pre (l # ls) = changeAt num pre l @ changesFrom num (pre @ [l]) ls"

text \<open>The lines of the block from which a file record was parsed.\<close>

definition blockLines :: "FileChange \<Rightarrow> string list" where
  "blockLines f = splitNewline (drop 10 (rawDiff f))"








section \<open>Sample inputs\<close>

definition diffOf :: "string list \<Rightarrow> string" where
  "diffOf ls = joinWith [CHR 0x0A] ls"

definition sampleDiff :: string where
  "sampleDiff = diffOf
     [''diff --git a/f.ts b/f.ts'', ''@@ -1,2 +10,3 @@'', '' keep'', ''-old'', ''+new'', ''+more'']"

definition sampleFile :: FileChange where
  "sampleFile =
     \<lparr>fileName = ''f.ts'', oldFileName = ''f.ts'', isDeleted = False, isNewFile = False,
      additions = 2, deletions = 1,
      changes =
        [\<lparr>type = context, lineNumber = 0, content = ''a/f.ts b/f.ts''\<rparr>,
         \<lparr>type = context, lineNumber = 1, content = ''keep''\<rparr>,
         \<lparr>type = deletion, lineNumber = 2, content = ''old''\<rparr>,
         \<lparr>type = addition, lineNumber = 11, content = ''new''\<rparr>,
         \<lparr>type = addition, lineNumber = 12, content = ''more''\<rparr>],
      rawDiff = sampleDiff\<rparr>"


text \<open>A file record with a given name and no changes.\<close>

definition namedFile :: "string \<Rightarrow> FileChange" where
  "namedFile n = \<lparr>fileName = n, oldFileName = n, isDeleted = False, isNewFile = False,
     additions = 0, deletions = 0, changes = [], rawDiff = []\<rparr>"

definition sampleFiles :: "FileChange list" where
  "sampleFiles = [namedFile ''src/A.TS'', namedFile ''src/a.test.ts'', namedFile ''b.js'',
                  namedFile ''Test/c.ts'', namedFile ''d.ts'']"



text \<open>An issue with a given severity and title.\<close>

definition issueOf :: "Severity \<Rightarrow> string \<Rightarrow> ReviewIssue" where
  "issueOf s t = \<lparr>severity = s, title = t, description = [], file = ''f.ts'', line = None,
     suggestion = None, codeSnippet = None, language = None\<rparr>"

text \<open>The severities of the example of the specification: minor, critical, major, info,
  critical.\<close>

definition fiveIssues :: "ReviewIssue list" where
  "fiveIssues = [issueOf minor ''first'', issueOf critical ''second'', issueOf major ''third'',
                 issueOf info ''fourth'', issueOf critical ''fifth'']"

text \<open>Options that only name the extensions to review.\<close>

definition tsOptions :: ReviewOptions where
  "tsOptions = \<lparr>fromCommit = Some ''HEAD~1'', toCommit = None, sourceBranch = None,
     targetBranch = None, repositoryPath = None, reviewPrompt = None,
     fileExtensions = Some [''.ts''], excludePatterns = None\<rparr>"

text \<open>A diff that adds a line with a statement after a \<open>return\<close>.\<close>

definition returnDiff :: string where
  "returnDiff = diffOf
     [''diff --git a/r.ts b/r.ts'', ''@@ -3,0 +4,1 @@'', ''+  return total; cleanup();'']"

definition returnFile :: FileChange where
  "returnFile =
     \<lparr>fileName = ''r.ts'', oldFileName = ''r.ts'', isDeleted = False, isNewFile = False,
      additions = 1, deletions = 0,
      changes =
        [\<lparr>type = context, lineNumber = 0, content = ''a/r.ts b/r.ts''\<rparr>,
         \<lparr>type = addition, lineNumber = 4, content = ''  return total; cleanup();''\<rparr>],
      rawDiff = returnDiff\<rparr>"

text \<open>A diff that adds a line which indexes an array under a check of its length.\<close>

definition checkedDiff :: string where
  "checkedDiff = diffOf
     [''diff --git a/c.ts b/c.ts'', ''@@ -7,0 +8,1 @@'', ''+if (arr.length > 0) first = arr[0];'']"

definition checkedFile :: FileChange where
  "checkedFile =
     \<lparr>fileName = ''c.ts'', oldFileName = ''c.ts'', isDeleted = False, isNewFile = False,
      additions = 1, deletions = 0,
      changes =
        [\<lparr>type = context, lineNumber = 0, content = ''a/c.ts b/c.ts''\<rparr>,
         \<lparr>type = addition, lineNumber = 8, content = ''if (arr.length > 0) first = arr[0];''\<rparr>],
      rawDiff = checkedDiff\<rparr>"



section \<open>Properties of the parser\<close>

lemma parseDiff_sample: "parseDiff sampleDiff = [sampleFile]"
  by code_simp

lemma parseLine_countsOk: "countsOk st \<Longrightarrow> countsOk (parseLine st l)"
  by (simp add: countsOk_def parseLine_def split: option.splits)

lemma parseLines_countsOk: "countsOk st \<Longrightarrow> countsOk (parseLines st ls)"
  unfolding parseLines_def
  by (induction ls arbitrary: st) (simp_all add: parseLine_countsOk)

lemma parseFileBlock_counts:
  assumes "parseFileBlock hunk = Some f"
  shows "additions f = length (filter (\<lambda>c. type c = addition) (changes f))
     \<and> deletions f = length (filter (\<lambda>c. type c = deletion) (changes f))"
proof -
  have "countsOk (parseLines initState (splitNewline hunk))"
    by (rule parseLines_countsOk) (simp add: countsOk_def initState_def)
  with assms show ?thesis
    by (auto simp: parseFileBlock_def countsOk_def Let_def split: option.splits)
qed

lemma parseDiff_blocks:
  "f \<in> set (parseDiff diff) \<longleftrightarrow>
     (\<exists>hunk \<in> set (tl (splitDiff diff)). parseFileBlock hunk = Some f)"
  by (force simp: parseDiff_def List.map_filter_def)

text \<open>C3: in every file record that the parser produces, \<open>additions\<close> is the number of
  changes of type addition and \<open>deletions\<close> is the number of changes of type deletion.\<close>

theorem parseDiff_counts:
  assumes "f \<in> set (parseDiff diff)"
  shows "additions f = length (filter (\<lambda>c. type c = addition) (changes f))
     \<and> deletions f = length (filter (\<lambda>c. type c = deletion) (changes f))"
  using assms parseFileBlock_counts unfolding parseDiff_blocks by blast

theorem parseDiff_counts_witness:
  "sampleFile \<in> set (parseDiff sampleDiff)
   \<and> additions sampleFile = length (filter (\<lambda>c. type c = addition) (changes sampleFile))
   \<and> deletions sampleFile = length (filter (\<lambda>c. type c = deletion) (changes sampleFile))
   \<and> additions sampleFile = 2 \<and> deletions sampleFile = 1"
proof -
  have m: "sampleFile \<in> set (parseDiff sampleDiff)"
    by (simp add: parseDiff_sample)
  show ?thesis
    using m parseDiff_counts [OF m] by (simp add: sampleFile_def)
qed





section \<open>Line numbers of the recorded changes\<close>

lemma not_plus_at: "startsWith l ''@@'' \<Longrightarrow> \<not> startsWith l ''+'' \<and> \<not> startsWith l ''-''"
  by (cases l) (auto simp: startsWith_def)

lemma parseLine_cases:
  "parseLine st l =
     (if isHunkHeader l then
        st\<lparr>currentLineOld := fst (the (matchHunkHeader l)),
           currentLineNew := snd (the (matchHunkHeader l))\<rparr>
      else if recordsAddition l then
        st\<lparr>st_additions := st_additions st + 1,
           st_changes := st_changes st @
             [\<lparr>type = addition, lineNumber = currentLineNew st, content = drop 1 l\<rparr>],
           currentLineNew := currentLineNew st + 1\<rparr>
      else if recordsDeletion l then
        st\<lparr>st_deletions := st_deletions st + 1,
           st_changes := st_changes st @
             [\<lparr>type = deletion, lineNumber = currentLineOld st, content = drop 1 l\<rparr>],
           currentLineOld := currentLineOld st + 1\<rparr>
      else if recordsContext l then
        st\<lparr>st_changes := st_changes st @
             [\<lparr>type = context, lineNumber = currentLineOld st,
               content = (if startsWith l '' '' then drop 1 l else l)\<rparr>],
           currentLineOld := currentLineOld st + 1,
           currentLineNew := currentLineNew st + 1\<rparr>
      else st)"
  using not_plus_at [of l]
  by (auto simp: parseLine_def isHunkHeader_def recordsAddition_def recordsDeletion_def
      recordsContext_def isContextLine_def split: option.splits)

lemma hunk_not_recorded:
  "isHunkHeader l \<Longrightarrow> \<not> recordsAddition l \<and> \<not> recordsDeletion l \<and> \<not> recordsContext l"
  using not_plus_at [of l]
  by (auto simp: isHunkHeader_def recordsAddition_def recordsDeletion_def recordsContext_def isContextLine_def)

lemma records_exclusive:
  "\<not> (recordsAddition l \<and> recordsDeletion l)"
  "\<not> (recordsAddition l \<and> recordsContext l)"
  "\<not> (recordsDeletion l \<and> recordsContext l)"
  by (cases l; auto simp: recordsAddition_def recordsDeletion_def recordsContext_def startsWith_def)+

lemma sinceHunk_snoc:
  "sinceHunk (pre @ [l]) = (if isHunkHeader l then [] else sinceHunk pre @ [l])"
  by (simp add: sinceHunk_def)

lemma hunkStart_snoc:
  "hunkStart (pre @ [l]) = (if isHunkHeader l then the (matchHunkHeader l) else hunkStart pre)"
  by (auto simp: hunkStart_def isHunkHeader_def)

lemma parseLines_snoc: "parseLines st (pre @ [l]) = parseLine (parseLines st pre) l"
  by (simp add: parseLines_def)

lemma counters_numbers:
  "currentLineOld (parseLines initState pre) = oldNumber pre
   \<and> currentLineNew (parseLines initState pre) = newNumber pre"
proof (induction pre rule: rev_induct)
  case Nil
  show ?case
    by (simp add: parseLines_def initState_def oldNumber_def newNumber_def hunkStart_def sinceHunk_def)
next
  case (snoc l pre)
  show ?case
  proof (cases "isHunkHeader l")
    case True
    then show ?thesis
      by (simp add: parseLines_snoc parseLine_cases oldNumber_def newNumber_def
          sinceHunk_snoc hunkStart_snoc)
  next
    case False
    with snoc records_exclusive [of l] show ?thesis
      by (auto simp: parseLines_snoc parseLine_cases oldNumber_def newNumber_def
          sinceHunk_snoc hunkStart_snoc)
  qed
qed

lemma changes_snoc:
  "st_changes (parseLines initState (pre @ [l]))
     = st_changes (parseLines initState pre) @ changeAt oldContextNumbering pre l"
  using counters_numbers [of pre] hunk_not_recorded [of l] records_exclusive [of l]
  by (auto simp: parseLines_snoc parseLine_cases changeAt_def oldContextNumbering_def
      recorded_def lineType_def lineContent_def)

lemma parseLines_append: "parseLines st (a @ b) = parseLines (parseLines st a) b"
  by (simp add: parseLines_def)

lemma changes_from:
  "st_changes (parseLines initState (pre @ ls))
     = st_changes (parseLines initState pre) @ changesFrom oldContextNumbering pre ls"
proof (induction ls arbitrary: pre)
  case Nil
  show ?case by simp
next
  case (Cons l ls)
  from Cons [of "pre @ [l]"] show ?case
    by (simp add: changes_snoc)
qed

lemma parseFileBlock_changes:
  assumes "parseFileBlock hunk = Some f"
  shows "blockLines f = splitNewline hunk"
    and "changes f = changesFrom oldContextNumbering [] (blockLines f)"
proof -
  from assms show b: "blockLines f = splitNewline hunk"
    by (auto simp: parseFileBlock_def blockLines_def Let_def split: option.splits)
  from assms have "changes f = st_changes (parseLines initState (splitNewline hunk))"
    by (auto simp: parseFileBlock_def Let_def split: option.splits)
  also have "\<dots> = changesFrom oldContextNumbering [] (splitNewline hunk)"
    using changes_from [of "[]" "splitNewline hunk"] by (simp add: parseLines_def initState_def)
  finally show "changes f = changesFrom oldContextNumbering [] (blockLines f)"
    by (simp add: b)
qed
















section \<open>Properties of the file filter\<close>

lemma startsWith_prefix: "startsWith s p \<longleftrightarrow> prefix p s"
  by (auto simp: startsWith_def prefix_def) (metis append_take_drop_id)

lemma endsWith_suffix: "endsWith s p \<longleftrightarrow> suffix p s"
  by (auto simp: endsWith_def suffix_def) (metis append_take_drop_id)

lemma includesStr_sublist: "includesStr s p \<longleftrightarrow> sublist p s"
  by (induction s) (auto simp: startsWith_prefix sublist_Cons_right)

text \<open>C7: the filter returns exactly the input files that end with one of the extensions
  (when that list is present and not empty) and contain none of the exclude patterns (when
  that list is present and not empty), compared in lower case, in their input order.\<close>

theorem filterFiles_spec:
  "filterFiles files extensions excludes
     = filter (passesFilterSpec extensions excludes) files
   \<and> subseq (filterFiles files extensions excludes) files"
proof -
  have "filterFiles files extensions excludes
      = filter (passesFilterSpec extensions excludes) files"
    unfolding filterFiles_def passesFilterSpec_def
    by (rule filter_cong)
       (auto simp: list_ex_iff endsWith_suffix includesStr_sublist split: option.splits)
  then show ?thesis by simp
qed

theorem filterFiles_spec_witness:
  "filterFiles sampleFiles (Some [''.ts'']) (Some [''test''])
     = [namedFile ''src/A.TS'', namedFile ''d.ts'']"
proof -
  have 1: "passesFilterSpec (Some [''.ts'']) (Some [''test'']) (namedFile ''src/A.TS'')"
    by code_simp
  have 2: "\<not> passesFilterSpec (Some [''.ts'']) (Some [''test'']) (namedFile ''src/a.test.ts'')"
    by code_simp
  have 3: "\<not> passesFilterSpec (Some [''.ts'']) (Some [''test'']) (namedFile ''b.js'')"
    by code_simp
  have 4: "\<not> passesFilterSpec (Some [''.ts'']) (Some [''test'']) (namedFile ''Test/c.ts'')"
    by code_simp
  have 5: "passesFilterSpec (Some [''.ts'']) (Some [''test'']) (namedFile ''d.ts'')"
    by code_simp
  show ?thesis
    using filterFiles_spec [of sampleFiles "Some [''.ts'']" "Some [''test'']"]
    by (simp add: sampleFiles_def 1 2 3 4 5)
qed

section \<open>Properties of the orchestrator\<close>

text \<open>C9: the issues found in a file and the summary do not depend on the prompt.\<close>

theorem prompt_independence:
  "analyzeFileChange fileChange p1 = analyzeFileChange fileChange p2
   \<and> generateSummary files found p1 = generateSummary files found p2"
  by (simp add: analyzeFileChange_def generateSummary_def)

lemma sortBySeverity_sorted:
  "sorted_wrt (\<lambda>a b. getSeverityWeight (severity a) \<ge> getSeverityWeight (severity b))
     (sortBySeverity found)"
proof -
  have "sorted (map (\<lambda>i. - getSeverityWeight (severity i)) (sortBySeverity found))"
    unfolding sortBySeverity_def by (rule sorted_sort_key)
  then show ?thesis
    by (simp add: sorted_map)
qed

lemma sortBySeverity_stable:
  "filter (\<lambda>i. severity i = s) (sortBySeverity found) = filter (\<lambda>i. severity i = s) found"
proof -
  have eq: "(severity i = s) = (- getSeverityWeight (severity i) = - getSeverityWeight s)" for i
    by (cases "severity i"; cases s) (simp_all add: getSeverityWeight_def)
  show ?thesis
    unfolding sortBySeverity_def eq by (rule sort_key_stable)
qed

lemma sortBySeverity_five:
  "sortBySeverity fiveIssues
     = [issueOf critical ''second'', issueOf critical ''fifth'', issueOf major ''third'',
        issueOf minor ''first'', issueOf info ''fourth'']"
  by code_simp

text \<open>C2: the issues of a review result are in the order of falling severity weight
  (critical 4, major 3, minor 2, info 1), and the issues of each severity stand in the order
  in which the detectors emitted them; the severities minor, critical, major, info, critical
  come out as critical, critical, major, minor, info with the two critical issues in their
  original order.\<close>

theorem analyzeDiff_sorted_stable:
  "sorted_wrt (\<lambda>a b. getSeverityWeight (severity a) \<ge> getSeverityWeight (severity b))
     (issues (analyzeDiff diff diffSummary options))
   \<and> (\<forall>s. filter (\<lambda>i. severity i = s) (issues (analyzeDiff diff diffSummary options))
        = filter (\<lambda>i. severity i = s)
            (collectIssues
               (filterFiles (parseDiff diff) (fileExtensions options) (excludePatterns options))
               (orElse (reviewPrompt options) comprehensiveTemplate)))
   \<and> map getSeverityWeight [critical, major, minor, info] = [4, 3, 2, 1]
   \<and> map severity fiveIssues = [minor, critical, major, info, critical]
   \<and> sortBySeverity fiveIssues
       = [issueOf critical ''second'', issueOf critical ''fifth'', issueOf major ''third'',
          issueOf minor ''first'', issueOf info ''fourth'']"
proof -
  have "issues (analyzeDiff diff diffSummary options)
      = sortBySeverity (collectIssues
               (filterFiles (parseDiff diff) (fileExtensions options) (excludePatterns options))
               (orElse (reviewPrompt options) comprehensiveTemplate))"
    by (simp add: analyzeDiff_def Let_def)
  moreover have "map getSeverityWeight [critical, major, minor, info] = [4, 3, 2, 1]"
    by (simp add: getSeverityWeight_def)
  moreover have "map severity fiveIssues = [minor, critical, major, info, critical]"
    by (simp add: fiveIssues_def issueOf_def)
  ultimately show ?thesis
    using sortBySeverity_sorted sortBySeverity_stable sortBySeverity_five by simp
qed

section \<open>Properties of the context window\<close>











section \<open>Properties of the logical-bug detector\<close>


lemma parseDiff_return: "parseDiff returnDiff = [returnFile]"
  by code_simp

lemma parseDiff_checked: "parseDiff checkedDiff = [checkedFile]"
  by code_simp

lemma splitAcc_no_separator:
  "sep \<notin> set acc \<Longrightarrow> \<forall>l \<in> set (splitAcc sep acc s). sep \<notin> set l"
proof (induction s arbitrary: acc)
  case Nil
  then show ?case by simp
next
  case (Cons a s)
  show ?case
  proof (cases "a = sep")
    case True
    with Cons.prems Cons.IH [of "[]"] show ?thesis by simp
  next
    case False
    with Cons.prems Cons.IH [of "a # acc"] show ?thesis by simp
  qed
qed

lemma splitNewline_no_newline: "l \<in> set (splitNewline s) \<Longrightarrow> CHR 0x0A \<notin> set l"
  using splitAcc_no_separator [of "CHR 0x0A" "[]" s]
  by (simp add: splitNewline_def splitChar_def)

lemma lineContent_subset: "set (lineContent l) \<subseteq> set l"
  by (auto simp: lineContent_def dest: in_set_dropD)

lemma changesFrom_content:
  "c \<in> set (changesFrom num pre ls) \<Longrightarrow> \<exists>l \<in> set ls. content c = lineContent l"
  by (induction ls arbitrary: pre) (auto simp: changeAt_def split: if_splits)

lemma parseDiff_no_newline:
  assumes "f \<in> set (parseDiff diff)" and "c \<in> set (changes f)"
  shows "CHR 0x0A \<notin> set (content c)"
proof -
  from assms(1) obtain hunk where h: "parseFileBlock hunk = Some f"
    unfolding parseDiff_blocks by blast
  from assms(2) parseFileBlock_changes [OF h]
  obtain l where "l \<in> set (splitNewline hunk)" and "content c = lineContent l"
    using changesFrom_content by metis
  then show ?thesis
    using splitNewline_no_newline lineContent_subset by fastforce
qed

lemma ms_Seq_left: "ms a s i c = [] \<Longrightarrow> ms (Seq a b) s i c = []"
  by simp

lemma ms_Seq_right: "(\<And>j c'. ms b s j c' = []) \<Longrightarrow> ms (Seq a b) s i c = []"
  by simp

lemma ms_Atom_absent: "(\<And>x. x \<in> set s \<Longrightarrow> \<not> p x) \<Longrightarrow> ms (Atom p) s i c = []"
  by simp

lemma matchFrom_None: "(\<And>j. ms r s j [] = []) \<Longrightarrow> matchFrom r s i k = None"
  by (induction k arbitrary: i) simp_all

lemma unreachableRe_needs_newline:
  assumes "CHR 0x0A \<notin> set s"
  shows "\<not> matches s unreachableRe"
proof -
  have nl: "ms (Atom (\<lambda>x. x = CHR 0x0A)) s j c' = []" for j c'
    using assms by (intro ms_Atom_absent) auto
  have "ms unreachableRe s j [] = []" for j
    unfolding unreachableRe_def seqs_def lit_def newline_def
    by (simp only: foldr.simps o_apply id_apply)
       (intro ms_Seq_right ms_Seq_left nl)
  then show ?thesis
    by (simp add: matches_def matchRe_def matchFrom_None)
qed

lemma analyzeLogicalBugs_set:
  "set (analyzeLogicalBugs fc)
     = (\<Union>l \<in> set (addedLinesOf fc). set (logicalBugsOfLine fc (getFileExtension (fileName fc)) l))"
  by (simp add: analyzeLogicalBugs_def Let_def)

lemma unreachable_issue_source:
  assumes "i \<in> set (logicalBugsOfLine fc ext l)"
    and "title i = ''Potentially unreachable code''"
  shows "matches (content l) unreachableRe"
proof (rule ccontr)
  assume "\<not> matches (content l) unreachableRe"
  with assms show False
    by (auto simp: logicalBugsOfLine_def split: if_splits)
qed

text \<open>C4: the rule for code after a \<open>return\<close> asks for a line feed inside the content of
  one line, and the parser cuts the lines at the line feeds. So for a file record of the
  parser the logical-bug detector never emits the issue, whatever follows the \<open>return\<close>.
  The pattern itself does match a text of two lines.\<close>

theorem unreachable_rule_never_fires:
  assumes "f \<in> set (parseDiff diff)"
  shows "\<forall>i \<in> set (analyzeLogicalBugs f). title i \<noteq> ''Potentially unreachable code''"
proof
  fix i assume i: "i \<in> set (analyzeLogicalBugs f)"
  show "title i \<noteq> ''Potentially unreachable code''"
  proof
    assume t: "title i = ''Potentially unreachable code''"
    from i obtain l where l: "l \<in> set (addedLinesOf f)"
      and "i \<in> set (logicalBugsOfLine f (getFileExtension (fileName f)) l)"
      unfolding analyzeLogicalBugs_set by blast
    then have "matches (content l) unreachableRe"
      using t by (rule_tac unreachable_issue_source)
    moreover from l have "l \<in> set (changes f)"
      by (simp add: addedLinesOf_def)
    then have "CHR 0x0A \<notin> set (content l)"
      using assms parseDiff_no_newline by blast
    ultimately show False
      using unreachableRe_needs_newline by blast
  qed
qed

theorem unreachable_rule_never_fires_witness:
  "returnFile \<in> set (parseDiff returnDiff)
   \<and> map content (addedLinesOf returnFile) = [''  return total; cleanup();'']
   \<and> ''Potentially unreachable code'' \<notin> title ` set (analyzeLogicalBugs returnFile)
   \<and> analyzeLogicalBugs returnFile = []
   \<and> matches (''  return total;'' @ newline @ ''cleanup();'') unreachableRe"
proof -
  have m: "returnFile \<in> set (parseDiff returnDiff)"
    by (simp add: parseDiff_return)
  have a: "map content (addedLinesOf returnFile) = [''  return total; cleanup();'']"
    by code_simp
  have e: "analyzeLogicalBugs returnFile = []"
    by code_simp
  have "''Potentially unreachable code'' \<notin> title ` set (analyzeLogicalBugs returnFile)"
    using unreachable_rule_never_fires [OF m] by (auto simp: image_iff)
  moreover have "matches (''  return total;'' @ newline @ ''cleanup();'') unreachableRe"
    by code_simp
  ultimately show ?thesis
    using m a e by blast
qed

text \<open>C5: an added line with a numeric index in brackets gets the issue about the missing
  bounds check also when the line holds a \<open>.length\<close> check: the test of \<open>.length\<close> guards
  the second pattern only.\<close>

theorem numeric_index_flagged_despite_length:
  assumes "l \<in> set (addedLinesOf fc)"
    and "matches (content l) numericIndexRe" and "matches (content l) lengthRe"
  shows "\<lparr>severity = minor, title = ''Array access without bounds check'',
           description = ''Direct array indexing without length validation'',
           file = fileName fc, line = Some (lineNumber l),
           suggestion = Some ''Check array length before accessing elements'',
           codeSnippet = Some (getCodeContext fc (lineNumber l) 2),
           language = None\<rparr> \<in> set (analyzeLogicalBugs fc)"
proof -
  have "\<lparr>severity = minor, title = ''Array access without bounds check'',
           description = ''Direct array indexing without length validation'',
           file = fileName fc, line = Some (lineNumber l),
           suggestion = Some ''Check array length before accessing elements'',
           codeSnippet = Some (getCodeContext fc (lineNumber l) 2),
           language = None\<rparr> \<in> set (logicalBugsOfLine fc (getFileExtension (fileName fc)) l)"
    using assms(2) by (simp add: logicalBugsOfLine_def)
  with assms(1) show ?thesis
    unfolding analyzeLogicalBugs_set by blast
qed

theorem numeric_index_flagged_despite_length_witness:
  "parseDiff checkedDiff = [checkedFile]
   \<and> \<lparr>type = addition, lineNumber = 8, content = ''if (arr.length > 0) first = arr[0];''\<rparr>
       \<in> set (addedLinesOf checkedFile)
   \<and> matches ''if (arr.length > 0) first = arr[0];'' numericIndexRe
   \<and> matches ''if (arr.length > 0) first = arr[0];'' lengthRe
   \<and> \<lparr>severity = minor, title = ''Array access without bounds check'',
           description = ''Direct array indexing without length validation'',
           file = ''c.ts'', line = Some 8,
           suggestion = Some ''Check array length before accessing elements'',
           codeSnippet = Some (''>   8+ if (arr.length > 0) first = arr[0];''),
           language = None\<rparr> \<in> set (analyzeLogicalBugs checkedFile)"
proof -
  have m: "\<lparr>type = addition, lineNumber = 8, content = ''if (arr.length > 0) first = arr[0];''\<rparr>
       \<in> set (addedLinesOf checkedFile)"
    by (simp add: addedLinesOf_def checkedFile_def)
  have n: "matches (content \<lparr>type = addition, lineNumber = 8,
       content = ''if (arr.length > 0) first = arr[0];''\<rparr>) numericIndexRe"
    by code_simp
  have k: "matches (content \<lparr>type = addition, lineNumber = 8,
       content = ''if (arr.length > 0) first = arr[0];''\<rparr>) lengthRe"
    by code_simp
  have c: "getCodeContext checkedFile 8 2 = ''>   8+ if (arr.length > 0) first = arr[0];''"
    by code_simp
  have f: "fileName checkedFile = ''c.ts''"
    by (simp add: checkedFile_def)
  show ?thesis
    using numeric_index_flagged_despite_length [OF m n k] m n k parseDiff_checked
    by (simp add: c f)
qed



end
